theory Spec2Isabelle
  imports Main "HOL-Library.Sublist"
begin

section \<open>Strings\<close>

text \<open>
  The strings of the uploader component (file names, messages) are modelled as \<open>string\<close>
  (lists of characters). The model is exact for ASCII text. \<open>toLowerCase\<close> maps the
  letters \<open>A\<close> to \<open>Z\<close> to \<open>a\<close> to \<open>z\<close> and leaves every other character alone.
\<close>

definition toLowerCase_char :: "char \<Rightarrow> char" where
  "toLowerCase_char c =
     (let n = (of_char c :: nat) in if 65 \<le> n \<and> n \<le> 90 then char_of (n + 32) else c)"

definition toLowerCase :: "string \<Rightarrow> string" where
  "toLowerCase s = map toLowerCase_char s"

text \<open>
  \<open>s.split(sep)\<close> for a separator of one character: the pieces of \<open>s\<close> between the
  occurrences of \<open>sep\<close>. The result is never empty: \<open>"".split(".")\<close> is \<open>[""]\<close>.
\<close>

fun split_str :: "char \<Rightarrow> string \<Rightarrow> string list" where
  "split_str sep [] = [[]]"
| "split_str sep (c # cs) =
     (if c = sep then [] # split_str sep cs
      else (case split_str sep cs of
              [] \<Rightarrow> [[c]]
            | w # ws \<Rightarrow> (c # w) # ws))"

text \<open>\<open>xs.join(sep)\<close>: the elements of \<open>xs\<close> with \<open>sep\<close> between neighbours.\<close>

fun join_str :: "string \<Rightarrow> string list \<Rightarrow> string" where
  "join_str sep [] = []"
| "join_str sep [x] = x"
| "join_str sep (x # y # ys) = x @ sep @ join_str sep (y # ys)"

section \<open>The file validator of the uploader component\<close>

text \<open>A browser \<open>File\<close>: the two properties the component reads.\<close>

record js_file =
  name :: string
  size_bytes :: nat

definition allowedTypes :: "string list" where
  "allowedTypes = [''.pdf'', ''.txt'', ''.docx'', ''.doc'', ''.csv'', ''.md'']"

definition maxFileSize :: nat where
  "maxFileSize = 10 * 1024 * 1024"

text \<open>The object \<open>{ validFiles, invalidFiles }\<close> that \<open>validateFiles\<close> returns.\<close>

record validation =
  validFiles :: "js_file list"
  invalidFiles :: "string list"

text \<open>
  \<open>const extension = "." + file.name.split(".").pop().toLowerCase()\<close>. \<open>pop\<close> returns
  the last element of the array, which \<open>split\<close> never leaves empty (lemma
  \<open>split_str_not_Nil\<close>).
\<close>

definition extension :: "js_file \<Rightarrow> string" where
  "extension f = ''.'' @ toLowerCase (last (split_str (CHR ''.'') (name f)))"

text \<open>The callback of \<open>forEach\<close>: one file is pushed to one of the two arrays.\<close>

definition validateFile :: "js_file \<Rightarrow> validation \<Rightarrow> validation" where
  "validateFile f acc =
     (if extension f \<notin> set allowedTypes then
        acc\<lparr>invalidFiles := invalidFiles acc @ [name f @ '' - Invalid file type'']\<rparr>
      else if size_bytes f > maxFileSize then
        acc\<lparr>invalidFiles := invalidFiles acc @ [name f @ '' - File too large (max 10MB)'']\<rparr>
      else
        acc\<lparr>validFiles := validFiles acc @ [f]\<rparr>)"

definition validateFiles :: "js_file list \<Rightarrow> validation" where
  "validateFiles fileList = fold validateFile fileList \<lparr>validFiles = [], invalidFiles = []\<rparr>"

section \<open>The upload flow of the uploader component\<close>

text \<open>The state object \<open>{ text, type }\<close> behind the notification.\<close>

record message =
  msg_text :: string
  msg_type :: string

text \<open>
  The component's state, followed by the part of the browser it acts on: the interval
  timers that are running (by id), the pending timeouts (by delay; the callback of each is
  \<open>() => setUploadProgress(0)\<close>), the POST requests issued so far (path and the files of
  the form data), and the id that the next \<open>setInterval\<close> returns.
\<close>

record uploader =
  files :: "js_file list"
  message :: message
  isUploading :: bool
  uploadProgress :: nat
  intervals :: "nat list"
  timeouts :: "nat list"
  requests :: "(string \<times> js_file list) list"
  nextTimer :: nat

text \<open>The initial values of the \<open>useState\<close> calls; nothing is running in the browser.\<close>

definition initial_uploader :: uploader where
  "initial_uploader =
     \<lparr>files = [], message = \<lparr>msg_text = '''', msg_type = ''''\<rparr>, isUploading = False,
      uploadProgress = 0, intervals = [], timeouts = [], requests = [], nextTimer = 0\<rparr>"

text \<open>\<open>handleFilesChange\<close>, with \<open>e.target.files\<close> as \<open>fileList\<close>.\<close>

definition handleFilesChange :: "js_file list \<Rightarrow> uploader \<Rightarrow> uploader" where
  "handleFilesChange fileList s =
     (if length fileList = 0 then s
      else
        (let v = validateFiles fileList;
             s1 = (if length (invalidFiles v) > 0
                   then s\<lparr>message := \<lparr>msg_text = ''Invalid files: '' @ join_str '', '' (invalidFiles v),
                                        msg_type = ''error''\<rparr>\<rparr>
                   else s\<lparr>message := \<lparr>msg_text = '''', msg_type = ''''\<rparr>\<rparr>)
         in s1\<lparr>files := validFiles v\<rparr>))"

text \<open>\<open>handleDrop\<close>, with \<open>e.dataTransfer.files\<close> as \<open>droppedFiles\<close>: no \<open>else\<close> branch.\<close>

definition handleDrop :: "js_file list \<Rightarrow> uploader \<Rightarrow> uploader" where
  "handleDrop droppedFiles s =
     (if length droppedFiles \<noteq> 0 then
        (let v = validateFiles droppedFiles;
             s1 = (if length (invalidFiles v) > 0
                   then s\<lparr>message := \<lparr>msg_text = ''Invalid files: '' @ join_str '', '' (invalidFiles v),
                                        msg_type = ''error''\<rparr>\<rparr>
                   else s)
         in s1\<lparr>files := validFiles v\<rparr>)
      else s)"

text \<open>
  \<open>handleSubmit\<close> is asynchronous. Its first part runs up to the \<open>await\<close>: it either
  returns at once (second component \<open>None\<close>), or starts the progress timer, issues the
  request and suspends (second component \<open>Some progressInterval\<close>: the timer id that the
  suspended call keeps in its closure).
\<close>

definition handleSubmit :: "bool \<Rightarrow> uploader \<Rightarrow> uploader \<times> nat option" where
  "handleSubmit resetMode s =
     (if length (files s) = 0 then
        (s\<lparr>message := \<lparr>msg_text = ''Please select files to upload'', msg_type = ''error''\<rparr>\<rparr>, None)
      else
        (let progressInterval = nextTimer s in
           (s\<lparr>isUploading := True,
              uploadProgress := 0,
              message := \<lparr>msg_text = '''', msg_type = ''''\<rparr>,
              intervals := intervals s @ [progressInterval],
              nextTimer := Suc (nextTimer s),
              requests := requests s @
                [(if resetMode then ''/admin/reset_upload'' else ''/admin/upload'', files s)]\<rparr>,
            Some progressInterval)))"

text \<open>
  The callback of the interval timer \<open>progressInterval\<close>, every 300 ms while the timer
  runs: \<open>setUploadProgress((prev) => ...)\<close>. A timer that was cleared does not fire.
\<close>

definition progressTick :: "nat \<Rightarrow> uploader \<Rightarrow> uploader" where
  "progressTick progressInterval s =
     (if progressInterval \<notin> set (intervals s) then s
      else if uploadProgress s \<ge> 80 then
        s\<lparr>intervals := removeAll progressInterval (intervals s), uploadProgress := 80\<rparr>
      else s\<lparr>uploadProgress := uploadProgress s + 5\<rparr>)"

text \<open>The backend's answer to an upload, \<open>response.data\<close>: \<open>{ message: string }\<close>.\<close>

record upload_response =
  data_message :: string

text \<open>
  The rest of the \<open>try\<close> block and the \<open>finally\<close> block, run when the request of the
  suspended call resolves. Resetting the DOM file input is outside the state modelled.
\<close>

definition handleSubmit_resolved :: "nat \<Rightarrow> upload_response \<Rightarrow> uploader \<Rightarrow> uploader" where
  "handleSubmit_resolved progressInterval response s =
     s\<lparr>intervals := removeAll progressInterval (intervals s),
       uploadProgress := 100,
       message := \<lparr>msg_text = data_message response, msg_type = ''success''\<rparr>,
       files := [],
       timeouts := timeouts s @ [2000],
       isUploading := False\<rparr>"

text \<open>The callback of that timeout, when the earliest pending one fires.\<close>

definition progressReset :: "uploader \<Rightarrow> uploader" where
  "progressReset s =
     (case timeouts s of
        [] \<Rightarrow> s
      | d # ds \<Rightarrow> s\<lparr>timeouts := ds, uploadProgress := 0\<rparr>)"

text \<open>
  The error a rejected request carries. \<open>error.response\<close>, its \<open>data\<close> and the fields
  \<open>detail\<close> and \<open>message\<close> of the data may each be missing (\<open>None\<close>); a field that is
  there is a string.
\<close>

record error_data =
  detail :: "string option"
  data_msg :: "string option"

record error_response =
  data :: "error_data option"

record upload_error =
  response :: "error_response option"

text \<open>\<open>error.response?.data?.field\<close>: \<open>undefined\<close> as soon as a link is missing.\<close>

definition response_data_field :: "(error_data \<Rightarrow> string option) \<Rightarrow> upload_error \<Rightarrow> string option" where
  "response_data_field field e =
     (case response e of
        None \<Rightarrow> None
      | Some r \<Rightarrow> (case data r of None \<Rightarrow> None | Some d \<Rightarrow> field d))"

text \<open>
  \<open>a || b\<close> yields \<open>a\<close> when \<open>a\<close> is truthy and \<open>b\<close> otherwise; \<open>undefined\<close> and the
  empty string are falsy, every other string is truthy.
\<close>

definition truthy :: "string option \<Rightarrow> bool" where
  "truthy v = (case v of None \<Rightarrow> False | Some t \<Rightarrow> t \<noteq> [])"

definition js_or :: "string option \<Rightarrow> string option \<Rightarrow> string option" where
  "js_or a b = (if truthy a then a else b)"

text \<open>\<open>a || "literal"\<close>, which is always a string.\<close>

definition js_or_literal :: "string option \<Rightarrow> string \<Rightarrow> string" where
  "js_or_literal a lit = (case a of None \<Rightarrow> lit | Some t \<Rightarrow> if t \<noteq> [] then t else lit)"

definition errorText :: "upload_error \<Rightarrow> string" where
  "errorText e =
     js_or_literal (js_or (response_data_field detail e) (response_data_field data_msg e))
       ''Error uploading files. Please try a smaller file.''"

text \<open>
  The \<open>catch\<close> block and the \<open>finally\<close> block, run when the request of the suspended
  call rejects. \<open>progressInterval\<close> is local to the \<open>try\<close> block: the timer is not cleared
  here.
\<close>

definition handleSubmit_rejected :: "upload_error \<Rightarrow> uploader \<Rightarrow> uploader" where
  "handleSubmit_rejected e s =
     s\<lparr>uploadProgress := 0,
       message := \<lparr>msg_text = errorText e, msg_type = ''error''\<rparr>,
       isUploading := False\<rparr>"

definition cancelUpload :: "uploader \<Rightarrow> uploader" where
  "cancelUpload s =
     s\<lparr>isUploading := False,
       uploadProgress := 0,
       message := \<lparr>msg_text = ''Upload cancelled'', msg_type = ''warning''\<rparr>\<rparr>"

section \<open>The chat component\<close>

text \<open>
  The texts of the chat come from the user and from the backend, and \<open>trim\<close> looks at
  characters beyond ASCII. They are modelled as JavaScript has them: sequences of UTF-16
  code units, each a number below 65536. \<open>utf16\<close> gives the code units of an ASCII
  literal.
\<close>

type_synonym js_string = "nat list"

definition utf16 :: "string \<Rightarrow> js_string" where
  "utf16 t = map of_char t"

text \<open>
  The code units that \<open>String.prototype.trim\<close> strips, the WhiteSpace and LineTerminator
  productions of ECMAScript: tab U+0009, line feed U+000A, vertical tab U+000B, form feed
  U+000C, carriage return U+000D, space U+0020, no-break space U+00A0, ogham space mark
  U+1680, the spaces U+2000 to U+200A, line separator U+2028, paragraph separator U+2029,
  narrow no-break space U+202F, medium mathematical space U+205F, ideographic space
  U+3000 and the byte order mark U+FEFF. All are single code units.
\<close>

definition isWhiteSpace :: "nat \<Rightarrow> bool" where
  "isWhiteSpace c \<longleftrightarrow>
     (0x0009 \<le> c \<and> c \<le> 0x000D) \<or> c = 0x0020 \<or> c = 0x00A0 \<or> c = 0x1680 \<or>
     (0x2000 \<le> c \<and> c \<le> 0x200A) \<or> c = 0x2028 \<or> c = 0x2029 \<or> c = 0x202F \<or>
     c = 0x205F \<or> c = 0x3000 \<or> c = 0xFEFF"

text \<open>\<open>t.trim()\<close>: \<open>t\<close> without the white space at its start and at its end.\<close>

definition trim :: "js_string \<Rightarrow> js_string" where
  "trim t = rev (dropWhile isWhiteSpace (rev (dropWhile isWhiteSpace t)))"

text \<open>
  A message of the transcript. \<open>sender\<close> is one of the literals \<open>"user"\<close> and \<open>"bot"\<close>.
  The welcome message, the user's messages and the apology have no \<open>sources\<close> property
  (\<open>None\<close>); time stamps are values of the clock.
\<close>

record turn =
  sender :: string
  turn_text :: js_string
  timestamp :: nat
  sources :: "js_string list option"

text \<open>The component's state, and the questions sent to \<open>GET /ask\<close> so far.\<close>

record chat =
  messages :: "turn list"
  input :: js_string
  loading :: bool
  asked :: "js_string list"

text \<open>
  \<open>sendMessage\<close> up to its \<open>await\<close>, at time \<open>now\<close>. The second component tells whether
  a request was issued and the call suspended. \<open>!input.trim()\<close> holds exactly when the
  trimmed input is the empty string.
\<close>

definition sendMessage :: "nat \<Rightarrow> chat \<Rightarrow> chat \<times> bool" where
  "sendMessage now s =
     (if trim (input s) = [] then (s, False)
      else
        (let userMsg = \<lparr>sender = ''user'', turn_text = input s, timestamp = now, sources = None\<rparr>
         in (s\<lparr>messages := messages s @ [userMsg],
               input := [],
               loading := True,
               asked := asked s @ [input s]\<rparr>,
             True)))"

text \<open>The backend's answer to a question, \<open>res.data\<close>: \<open>{ answer, sources? }\<close>.\<close>

record ask_response =
  answer :: js_string
  data_sources :: "js_string list option"

text \<open>
  The rest of the \<open>try\<close> block and the \<open>finally\<close> block, at time \<open>now\<close>.
  \<open>res.data.sources || []\<close>: an array is truthy, also the empty one.
\<close>

definition sendMessage_resolved :: "nat \<Rightarrow> ask_response \<Rightarrow> chat \<Rightarrow> chat" where
  "sendMessage_resolved now res s =
     (let botMsg = \<lparr>sender = ''bot'', turn_text = answer res, timestamp = now,
                    sources = Some (case data_sources res of None \<Rightarrow> [] | Some src \<Rightarrow> src)\<rparr>
      in s\<lparr>messages := messages s @ [botMsg], loading := False\<rparr>)"

definition sendMessage_rejected :: "nat \<Rightarrow> chat \<Rightarrow> chat" where
  "sendMessage_rejected now s =
     (let botMsg = \<lparr>sender = ''bot'',
                    turn_text = utf16 ''Sorry, I encountered an error while processing your request. Please try again.'',
                    timestamp = now, sources = None\<rparr>
      in s\<lparr>messages := messages s @ [botMsg], loading := False\<rparr>)"

section \<open>Properties of the string helpers\<close>

lemma split_str_not_Nil: "split_str sep s \<noteq> []"
  by (induction s) (auto split: list.splits)

lemma split_str_no_sep: "sep \<notin> set s \<Longrightarrow> split_str sep s = [s]"
  by (induction s) (auto split: list.splits)

lemma length_split_str: "length (split_str sep s) = Suc (length (filter (\<lambda>c. c = sep) s))"
  by (induction s) (auto split: list.splits)

lemma last_split_str_append: "sep \<notin> set e \<Longrightarrow> last (split_str sep (p @ sep # e)) = e"
proof (induction p)
  case Nil
  then show ?case by (simp add: split_str_no_sep)
next
  case (Cons a p)
  have "length (split_str sep (p @ sep # e)) \<ge> 2"
    by (simp add: length_split_str)
  then obtain w v ws where "split_str sep (p @ sep # e) = w # v # ws"
    by (cases "split_str sep (p @ sep # e)"; cases "tl (split_str sep (p @ sep # e))") auto
  with Cons show ?case by auto
qed

text \<open>
  What \<open>name.split(".").pop()\<close> is: the part of the name after its last dot, and the whole
  name when it has no dot.
\<close>

lemma last_split_str: "last (split_str sep s) = rev (takeWhile (\<lambda>c. c \<noteq> sep) (rev s))"
proof (cases "sep \<in> set s")
  case False
  then have tw: "takeWhile (\<lambda>c. c \<noteq> sep) (rev s) = rev s"
    by (intro takeWhile_eq_all_conv[THEN iffD2]) auto
  show ?thesis unfolding split_str_no_sep[OF False] tw by simp
next
  case True
  then obtain p e where s: "s = p @ sep # e" and e: "sep \<notin> set e"
    by (auto dest: split_list_last)
  from e have "takeWhile (\<lambda>c. c \<noteq> sep) (rev e @ sep # rev p) = rev e"
    by (simp add: takeWhile_append)
  with e s show ?thesis by (simp add: last_split_str_append)
qed

lemma sublist_prepend: "sublist e zs \<Longrightarrow> sublist e (ps @ zs)"
  unfolding sublist_def by (metis append.assoc)

lemma sublist_join_str: "e \<in> set xs \<Longrightarrow> sublist e (join_str sep xs)"
proof (induction sep xs rule: join_str.induct)
  case (1 sep)
  then show ?case by simp
next
  case (2 sep x)
  then show ?case by simp
next
  case (3 sep x y ys)
  show ?case
  proof (cases "e = x")
    case True
    then show ?thesis by (simp add: sublist_append_rightI)
  next
    case False
    with 3 have "sublist e (join_str sep (y # ys))" by simp
    then have "sublist e ((x @ sep) @ join_str sep (y # ys))"
      by (rule sublist_prepend)
    then show ?thesis by simp
  qed
qed

section \<open>Properties of the validator\<close>

lemma maxFileSize_eq: "maxFileSize = 10485760"
  by (simp add: maxFileSize_def)

lemma extension_allowed_iff:
  "extension f \<in> set allowedTypes \<longleftrightarrow>
   toLowerCase (last (split_str (CHR ''.'') (name f)))
     \<in> {''pdf'', ''txt'', ''docx'', ''doc'', ''csv'', ''md''}"
  by (auto simp: extension_def allowedTypes_def)

lemma validateFiles_snoc: "validateFiles (fs @ [f]) = validateFile f (validateFiles fs)"
  by (simp add: validateFiles_def)

lemma validFiles_validateFiles:
  "validFiles (validateFiles fs) =
   filter (\<lambda>f. extension f \<in> set allowedTypes \<and> size_bytes f \<le> maxFileSize) fs"
  by (induction fs rule: rev_induct)
    (auto simp: validateFiles_snoc validateFile_def validateFiles_def)

lemma invalidFiles_validateFiles:
  "invalidFiles (validateFiles fs) =
   map (\<lambda>f. name f @ (if extension f \<notin> set allowedTypes then '' - Invalid file type''
                       else '' - File too large (max 10MB)''))
       (filter (\<lambda>f. \<not> (extension f \<in> set allowedTypes \<and> size_bytes f \<le> maxFileSize)) fs)"
  by (induction fs rule: rev_induct)
    (auto simp: validateFiles_snoc validateFile_def validateFiles_def)

lemma validation_eqI:
  "validFiles (r::validation) = v \<Longrightarrow> invalidFiles r = i
   \<Longrightarrow> r = \<lparr>validFiles = v, invalidFiles = i\<rparr>"
  by (cases r) simp

lemma validateFiles_append:
  "validateFiles (xs @ ys) =
   \<lparr>validFiles = validFiles (validateFiles xs) @ validFiles (validateFiles ys),
    invalidFiles = invalidFiles (validateFiles xs) @ invalidFiles (validateFiles ys)\<rparr>"
  by (rule validation_eqI)
    (simp_all only: validFiles_validateFiles invalidFiles_validateFiles filter_append map_append)

lemma validateFiles_single:
  "validateFiles [f] = validateFile f \<lparr>validFiles = [], invalidFiles = []\<rparr>"
  by (simp add: validateFiles_def)

text \<open>The equations that evaluate the validator on a given batch.\<close>

lemmas validator_eval =
  validateFiles_def validateFile_def extension_def allowedTypes_def maxFileSize_def
  toLowerCase_def toLowerCase_char_def char_of_def bit_Suc_0_iff

text \<open>A file's verdict does not depend on the files around it in the batch.\<close>

lemma validateFiles_at:
  "validateFiles (pre @ f # post) =
   \<lparr>validFiles = validFiles (validateFiles pre) @ validFiles (validateFiles [f])
                   @ validFiles (validateFiles post),
    invalidFiles = invalidFiles (validateFiles pre) @ invalidFiles (validateFiles [f])
                   @ invalidFiles (validateFiles post)\<rparr>"
  using validateFiles_append[of pre "[f] @ post"] validateFiles_append[of "[f]" post]
  by simp

text \<open>
  C1. A file whose extension (the part of its name after the last dot, in lower case) is
  not one of pdf, txt, docx, doc, csv, md is rejected as an invalid file type, whatever its
  size and wherever it stands in the batch: it adds nothing to the accepted files and
  exactly the entry "name - Invalid file type" to the rejected ones, at its position.
\<close>

theorem validateFiles_invalid_type:
  assumes "toLowerCase (last (split_str (CHR ''.'') (name f)))
             \<notin> {''pdf'', ''txt'', ''docx'', ''doc'', ''csv'', ''md''}"
  shows "validateFiles (pre @ f # post) =
           \<lparr>validFiles = validFiles (validateFiles pre) @ validFiles (validateFiles post),
            invalidFiles = invalidFiles (validateFiles pre) @ [name f @ '' - Invalid file type'']
                             @ invalidFiles (validateFiles post)\<rparr>"
proof -
  from assms have "extension f \<notin> set allowedTypes"
    by (simp only: extension_allowed_iff not_False_eq_True)
  then have "validateFiles [f] =
      \<lparr>validFiles = [], invalidFiles = [name f @ '' - Invalid file type'']\<rparr>"
    by (simp add: validateFiles_single validateFile_def)
  then show ?thesis
    by (simp add: validateFiles_at)
qed

theorem validateFiles_invalid_type_witness:
  "toLowerCase (last (split_str (CHR ''.'') (name \<lparr>name = ''setup.EXE'', size_bytes = 12\<rparr>)))
     \<notin> {''pdf'', ''txt'', ''docx'', ''doc'', ''csv'', ''md''} \<and>
   validateFiles [\<lparr>name = ''a.pdf'', size_bytes = 5\<rparr>, \<lparr>name = ''setup.EXE'', size_bytes = 12\<rparr>,
                  \<lparr>name = ''b.md'', size_bytes = 7\<rparr>] =
     \<lparr>validFiles = [\<lparr>name = ''a.pdf'', size_bytes = 5\<rparr>, \<lparr>name = ''b.md'', size_bytes = 7\<rparr>],
      invalidFiles = [''setup.EXE - Invalid file type'']\<rparr>"
proof -
  let ?f = "\<lparr>name = ''setup.EXE'', size_bytes = 12\<rparr>"
  have h: "toLowerCase (last (split_str (CHR ''.'') (name ?f)))
     \<notin> {''pdf'', ''txt'', ''docx'', ''doc'', ''csv'', ''md''}"
    by (simp add: validator_eval)
  have pre: "validateFiles [\<lparr>name = ''a.pdf'', size_bytes = 5\<rparr>] =
     \<lparr>validFiles = [\<lparr>name = ''a.pdf'', size_bytes = 5\<rparr>], invalidFiles = []\<rparr>"
    by (simp add: validator_eval)
  have post: "validateFiles [\<lparr>name = ''b.md'', size_bytes = 7\<rparr>] =
     \<lparr>validFiles = [\<lparr>name = ''b.md'', size_bytes = 7\<rparr>], invalidFiles = []\<rparr>"
    by (simp add: validator_eval)
  from validateFiles_invalid_type[OF h, of "[\<lparr>name = ''a.pdf'', size_bytes = 5\<rparr>]"
      "[\<lparr>name = ''b.md'', size_bytes = 7\<rparr>]"]
  show ?thesis using h by (simp add: pre post)
qed

text \<open>
  C2. A file whose extension is in the allow-list is rejected as too large exactly when its
  size exceeds 10,485,760 bytes, adding the entry "name - File too large (max 10MB)" at its
  position, and is accepted otherwise, standing between the accepted files before it and
  those after it. For the whole batch, the accepted files are the input filtered by the
  two tests, so they keep the order of the input.
\<close>

theorem validateFiles_valid_type:
  assumes "toLowerCase (last (split_str (CHR ''.'') (name f)))
             \<in> {''pdf'', ''txt'', ''docx'', ''doc'', ''csv'', ''md''}"
  shows "validateFiles (pre @ f # post) =
           (if size_bytes f > 10485760 then
              \<lparr>validFiles = validFiles (validateFiles pre) @ validFiles (validateFiles post),
               invalidFiles = invalidFiles (validateFiles pre)
                  @ [name f @ '' - File too large (max 10MB)''] @ invalidFiles (validateFiles post)\<rparr>
            else
              \<lparr>validFiles = validFiles (validateFiles pre) @ [f] @ validFiles (validateFiles post),
               invalidFiles = invalidFiles (validateFiles pre) @ invalidFiles (validateFiles post)\<rparr>)
         \<and> validFiles (validateFiles fileList) =
             filter (\<lambda>g. toLowerCase (last (split_str (CHR ''.'') (name g)))
                            \<in> {''pdf'', ''txt'', ''docx'', ''doc'', ''csv'', ''md''}
                          \<and> size_bytes g \<le> 10485760) fileList
         \<and> subseq (validFiles (validateFiles fileList)) fileList"
proof -
  from assms have ok: "extension f \<in> set allowedTypes"
    by (simp only: extension_allowed_iff)
  have single: "validateFiles [f] =
      (if size_bytes f > 10485760
       then \<lparr>validFiles = [], invalidFiles = [name f @ '' - File too large (max 10MB)'']\<rparr>
       else \<lparr>validFiles = [f], invalidFiles = []\<rparr>)"
    using ok by (simp add: validateFiles_single validateFile_def maxFileSize_eq)
  have at: "validateFiles (pre @ f # post) =
           (if size_bytes f > 10485760 then
              \<lparr>validFiles = validFiles (validateFiles pre) @ validFiles (validateFiles post),
               invalidFiles = invalidFiles (validateFiles pre)
                  @ [name f @ '' - File too large (max 10MB)''] @ invalidFiles (validateFiles post)\<rparr>
            else
              \<lparr>validFiles = validFiles (validateFiles pre) @ [f] @ validFiles (validateFiles post),
               invalidFiles = invalidFiles (validateFiles pre) @ invalidFiles (validateFiles post)\<rparr>)"
    by (simp add: validateFiles_at single)
  have flt: "validFiles (validateFiles fileList) =
             filter (\<lambda>g. toLowerCase (last (split_str (CHR ''.'') (name g)))
                            \<in> {''pdf'', ''txt'', ''docx'', ''doc'', ''csv'', ''md''}
                          \<and> size_bytes g \<le> 10485760) fileList"
    by (simp only: validFiles_validateFiles extension_allowed_iff maxFileSize_eq)
  have "subseq (validFiles (validateFiles fileList)) fileList"
    by (simp only: validFiles_validateFiles subseq_filter_left)
  with at flt show ?thesis by (intro conjI)
qed

theorem validateFiles_valid_type_witness:
  "toLowerCase (last (split_str (CHR ''.'') (name \<lparr>name = ''big.docx'', size_bytes = 10485761\<rparr>)))
     \<in> {''pdf'', ''txt'', ''docx'', ''doc'', ''csv'', ''md''} \<and>
   toLowerCase (last (split_str (CHR ''.'') (name \<lparr>name = ''notes.TXT'', size_bytes = 10485760\<rparr>)))
     \<in> {''pdf'', ''txt'', ''docx'', ''doc'', ''csv'', ''md''} \<and>
   validateFiles [\<lparr>name = ''big.docx'', size_bytes = 10485761\<rparr>] =
     \<lparr>validFiles = [], invalidFiles = [''big.docx - File too large (max 10MB)'']\<rparr> \<and>
   validateFiles [\<lparr>name = ''notes.TXT'', size_bytes = 10485760\<rparr>] =
     \<lparr>validFiles = [\<lparr>name = ''notes.TXT'', size_bytes = 10485760\<rparr>], invalidFiles = []\<rparr>"
proof -
  let ?big = "\<lparr>name = ''big.docx'', size_bytes = 10485761\<rparr>"
  let ?ok = "\<lparr>name = ''notes.TXT'', size_bytes = 10485760\<rparr>"
  have hb: "toLowerCase (last (split_str (CHR ''.'') (name ?big)))
     \<in> {''pdf'', ''txt'', ''docx'', ''doc'', ''csv'', ''md''}"
    by (simp add: validator_eval)
  have ho: "toLowerCase (last (split_str (CHR ''.'') (name ?ok)))
     \<in> {''pdf'', ''txt'', ''docx'', ''doc'', ''csv'', ''md''}"
    by (simp add: validator_eval)
  have e: "validateFiles [] = \<lparr>validFiles = [], invalidFiles = []\<rparr>"
    by (simp add: validateFiles_def)
  from validateFiles_valid_type[OF hb, of "[]" "[]" "[]"]
  have b: "validateFiles [?big] =
     \<lparr>validFiles = [], invalidFiles = [''big.docx - File too large (max 10MB)'']\<rparr>"
    by (simp add: e)
  from validateFiles_valid_type[OF ho, of "[]" "[]" "[]"]
  have o: "validateFiles [?ok] = \<lparr>validFiles = [?ok], invalidFiles = []\<rparr>"
    by (simp add: e)
  from hb ho b o show ?thesis by (intro conjI)
qed

text \<open>
  C9. For a name without a dot the whole name is the extension: the file is accepted
  (within the size limit; rejected as too large beyond it) when its name, in lower case,
  is one of pdf, txt, docx, doc, csv, md, and rejected as an invalid file type otherwise.
\<close>

theorem validateFiles_dotless_name:
  assumes "CHR ''.'' \<notin> set (name f)"
  shows "validateFiles (pre @ f # post) =
           (if toLowerCase (name f) \<in> {''pdf'', ''txt'', ''docx'', ''doc'', ''csv'', ''md''} then
              (if size_bytes f > 10485760 then
                 \<lparr>validFiles = validFiles (validateFiles pre) @ validFiles (validateFiles post),
                  invalidFiles = invalidFiles (validateFiles pre)
                     @ [name f @ '' - File too large (max 10MB)'']
                     @ invalidFiles (validateFiles post)\<rparr>
               else
                 \<lparr>validFiles = validFiles (validateFiles pre) @ [f] @ validFiles (validateFiles post),
                  invalidFiles = invalidFiles (validateFiles pre) @ invalidFiles (validateFiles post)\<rparr>)
            else
              \<lparr>validFiles = validFiles (validateFiles pre) @ validFiles (validateFiles post),
               invalidFiles = invalidFiles (validateFiles pre) @ [name f @ '' - Invalid file type'']
                  @ invalidFiles (validateFiles post)\<rparr>)"
proof -
  from assms have "last (split_str (CHR ''.'') (name f)) = name f"
    by (simp add: split_str_no_sep)
  then have ext: "extension f \<in> set allowedTypes \<longleftrightarrow>
      toLowerCase (name f) \<in> {''pdf'', ''txt'', ''docx'', ''doc'', ''csv'', ''md''}"
    by (simp only: extension_allowed_iff)
  have "validateFiles [f] =
      (if toLowerCase (name f) \<in> {''pdf'', ''txt'', ''docx'', ''doc'', ''csv'', ''md''} then
         (if size_bytes f > 10485760
          then \<lparr>validFiles = [], invalidFiles = [name f @ '' - File too large (max 10MB)'']\<rparr>
          else \<lparr>validFiles = [f], invalidFiles = []\<rparr>)
       else \<lparr>validFiles = [], invalidFiles = [name f @ '' - Invalid file type'']\<rparr>)"
    unfolding ext[symmetric] by (simp add: validateFiles_single validateFile_def maxFileSize_eq)
  then show ?thesis
    by (simp add: validateFiles_at)
qed

theorem validateFiles_dotless_name_witness:
  "CHR ''.'' \<notin> set (name \<lparr>name = ''PdF'', size_bytes = 2048\<rparr>) \<and>
   CHR ''.'' \<notin> set (name \<lparr>name = ''README'', size_bytes = 2048\<rparr>) \<and>
   validateFiles [\<lparr>name = ''PdF'', size_bytes = 2048\<rparr>] =
     \<lparr>validFiles = [\<lparr>name = ''PdF'', size_bytes = 2048\<rparr>], invalidFiles = []\<rparr> \<and>
   validateFiles [\<lparr>name = ''README'', size_bytes = 2048\<rparr>] =
     \<lparr>validFiles = [], invalidFiles = [''README - Invalid file type'']\<rparr>"
proof -
  let ?p = "\<lparr>name = ''PdF'', size_bytes = 2048\<rparr>"
  let ?r = "\<lparr>name = ''README'', size_bytes = 2048\<rparr>"
  have hp: "CHR ''.'' \<notin> set (name ?p)" by simp
  have hr: "CHR ''.'' \<notin> set (name ?r)" by simp
  have lp: "toLowerCase (name ?p) = ''pdf''" by (simp add: validator_eval)
  have lr: "toLowerCase (name ?r) = ''readme''" by (simp add: validator_eval)
  have e: "validateFiles [] = \<lparr>validFiles = [], invalidFiles = []\<rparr>"
    by (simp add: validateFiles_def)
  from validateFiles_dotless_name[OF hp, of "[]" "[]"]
  have p: "validateFiles [?p] = \<lparr>validFiles = [?p], invalidFiles = []\<rparr>"
    unfolding lp by (simp add: e)
  from validateFiles_dotless_name[OF hr, of "[]" "[]"]
  have r: "validateFiles [?r] = \<lparr>validFiles = [], invalidFiles = [''README - Invalid file type'']\<rparr>"
    unfolding lr by (simp add: e)
  from hp hr p r show ?thesis by (intro conjI)
qed

section \<open>Properties of the upload flow\<close>

lemma all_accepted_iff:
  "validFiles (validateFiles fs) = fs \<longleftrightarrow> invalidFiles (validateFiles fs) = []"
  by (simp add: validFiles_validateFiles invalidFiles_validateFiles filter_id_conv
      filter_empty_conv)

lemma rejected_entry_in_invalidFiles:
  assumes "f \<in> set fs"
    and "\<not> (extension f \<in> set allowedTypes \<and> size_bytes f \<le> maxFileSize)"
  shows "name f @ (if extension f \<notin> set allowedTypes then '' - Invalid file type''
                   else '' - File too large (max 10MB)'')
         \<in> set (invalidFiles (validateFiles fs))"
  unfolding invalidFiles_validateFiles set_map
  by (rule image_eqI[where x = f]) (use assms in simp_all)

text \<open>
  C3. When a file of the batch is rejected, \<open>handleFilesChange\<close> sets an error message,
  "Invalid files: " followed by the entries of the rejected files joined by ", ", so that the
  entry of each rejected file (its name and its reason) occurs in the text; and the
  selection becomes the accepted files all the same.
\<close>

theorem handleFilesChange_partial_rejection:
  assumes "f \<in> set fileList"
    and "\<not> (toLowerCase (last (split_str (CHR ''.'') (name f)))
               \<in> {''pdf'', ''txt'', ''docx'', ''doc'', ''csv'', ''md''}
             \<and> size_bytes f \<le> 10485760)"
  shows "handleFilesChange fileList s =
           s\<lparr>message := \<lparr>msg_text = ''Invalid files: ''
                                       @ join_str '', '' (invalidFiles (validateFiles fileList)),
                          msg_type = ''error''\<rparr>,
             files := validFiles (validateFiles fileList)\<rparr>
         \<and> sublist
             (name f @ (if toLowerCase (last (split_str (CHR ''.'') (name f)))
                             \<notin> {''pdf'', ''txt'', ''docx'', ''doc'', ''csv'', ''md''}
                        then '' - Invalid file type'' else '' - File too large (max 10MB)''))
             (msg_text (message (handleFilesChange fileList s)))
         \<and> files (handleFilesChange fileList s) =
             filter (\<lambda>g. toLowerCase (last (split_str (CHR ''.'') (name g)))
                            \<in> {''pdf'', ''txt'', ''docx'', ''doc'', ''csv'', ''md''}
                          \<and> size_bytes g \<le> 10485760) fileList"
proof -
  let ?entry = "name f @ (if extension f \<notin> set allowedTypes then '' - Invalid file type''
                          else '' - File too large (max 10MB)'')"
  from assms(2) have rej: "\<not> (extension f \<in> set allowedTypes \<and> size_bytes f \<le> maxFileSize)"
    by (simp add: extension_allowed_iff maxFileSize_eq)
  have entry: "?entry \<in> set (invalidFiles (validateFiles fileList))"
    using assms(1) rej by (rule rejected_entry_in_invalidFiles)
  then have ne: "invalidFiles (validateFiles fileList) \<noteq> []" by auto
  from assms(1) have "fileList \<noteq> []" by auto
  with ne have eq: "handleFilesChange fileList s =
           s\<lparr>message := \<lparr>msg_text = ''Invalid files: ''
                                       @ join_str '', '' (invalidFiles (validateFiles fileList)),
                          msg_type = ''error''\<rparr>,
             files := validFiles (validateFiles fileList)\<rparr>"
    by (simp add: handleFilesChange_def Let_def)
  have "sublist ?entry (join_str '', '' (invalidFiles (validateFiles fileList)))"
    using entry by (rule sublist_join_str)
  then have "sublist ?entry (''Invalid files: '' @ join_str '', '' (invalidFiles (validateFiles fileList)))"
    by (rule sublist_prepend)
  then have sub: "sublist ?entry (msg_text (message (handleFilesChange fileList s)))"
    by (simp add: eq)
  have fl: "files (handleFilesChange fileList s) =
             filter (\<lambda>g. toLowerCase (last (split_str (CHR ''.'') (name g)))
                            \<in> {''pdf'', ''txt'', ''docx'', ''doc'', ''csv'', ''md''}
                          \<and> size_bytes g \<le> 10485760) fileList"
    unfolding eq by (simp add: validFiles_validateFiles extension_allowed_iff maxFileSize_eq)
  from sub have sub': "sublist
             (name f @ (if toLowerCase (last (split_str (CHR ''.'') (name f)))
                             \<notin> {''pdf'', ''txt'', ''docx'', ''doc'', ''csv'', ''md''}
                        then '' - Invalid file type'' else '' - File too large (max 10MB)''))
             (msg_text (message (handleFilesChange fileList s)))"
    by (simp only: extension_allowed_iff)
  from eq sub' fl show ?thesis by (intro conjI)
qed

theorem handleFilesChange_partial_rejection_witness:
  "\<lparr>name = ''virus.exe'', size_bytes = 1024\<rparr>
     \<in> set [\<lparr>name = ''report.pdf'', size_bytes = 2097152\<rparr>, \<lparr>name = ''virus.exe'', size_bytes = 1024\<rparr>,
            \<lparr>name = ''thesis.docx'', size_bytes = 11534336\<rparr>] \<and>
   handleFilesChange
     [\<lparr>name = ''report.pdf'', size_bytes = 2097152\<rparr>, \<lparr>name = ''virus.exe'', size_bytes = 1024\<rparr>,
      \<lparr>name = ''thesis.docx'', size_bytes = 11534336\<rparr>] initial_uploader =
   initial_uploader
     \<lparr>message := \<lparr>msg_text = ''Invalid files: virus.exe - Invalid file type, thesis.docx - File too large (max 10MB)'',
                   msg_type = ''error''\<rparr>,
      files := [\<lparr>name = ''report.pdf'', size_bytes = 2097152\<rparr>]\<rparr>"
proof -
  let ?exe = "\<lparr>name = ''virus.exe'', size_bytes = 1024\<rparr>"
  let ?batch = "[\<lparr>name = ''report.pdf'', size_bytes = 2097152\<rparr>, ?exe,
      \<lparr>name = ''thesis.docx'', size_bytes = 11534336\<rparr>]"
  have h1: "?exe \<in> set ?batch" by simp
  have h2: "\<not> (toLowerCase (last (split_str (CHR ''.'') (name ?exe)))
               \<in> {''pdf'', ''txt'', ''docx'', ''doc'', ''csv'', ''md''}
             \<and> size_bytes ?exe \<le> 10485760)"
    by (simp add: validator_eval)
  have v: "validateFiles ?batch =
     \<lparr>validFiles = [\<lparr>name = ''report.pdf'', size_bytes = 2097152\<rparr>],
      invalidFiles = [''virus.exe - Invalid file type'', ''thesis.docx - File too large (max 10MB)'']\<rparr>"
    by (simp add: validator_eval)
  from handleFilesChange_partial_rejection[OF h1 h2, of initial_uploader]
  have "handleFilesChange ?batch initial_uploader =
     initial_uploader
     \<lparr>message := \<lparr>msg_text = ''Invalid files: virus.exe - Invalid file type, thesis.docx - File too large (max 10MB)'',
                   msg_type = ''error''\<rparr>,
      files := [\<lparr>name = ''report.pdf'', size_bytes = 2097152\<rparr>]\<rparr>"
    unfolding v by simp
  with h1 show ?thesis by (intro conjI)
qed

text \<open>
  C10. When files are supplied and the validator accepts every one of them, \<open>handleDrop\<close>
  leaves the message as it was, whereas \<open>handleFilesChange\<close> resets it to the empty
  message; both replace the selection by the accepted files. (With no file at all, an
  empty \<open>FileList\<close>, both handlers return at once: lemma \<open>no_files_no_change\<close>.)
\<close>

theorem handleDrop_keeps_message:
  assumes "fileList \<noteq> []"
    and "validFiles (validateFiles fileList) = fileList"
  shows "message (handleDrop fileList s) = message s
       \<and> files (handleDrop fileList s) = validFiles (validateFiles fileList)
       \<and> message (handleFilesChange fileList s) = \<lparr>msg_text = '''', msg_type = ''''\<rparr>
       \<and> files (handleFilesChange fileList s) = validFiles (validateFiles fileList)
       \<and> handleDrop fileList s = s\<lparr>files := fileList\<rparr>
       \<and> handleFilesChange fileList s =
           s\<lparr>message := \<lparr>msg_text = '''', msg_type = ''''\<rparr>, files := fileList\<rparr>"
proof -
  from assms(2) have "invalidFiles (validateFiles fileList) = []"
    by (simp only: all_accepted_iff)
  with assms show ?thesis
    by (simp add: handleDrop_def handleFilesChange_def Let_def)
qed

theorem handleDrop_keeps_message_witness:
  "[\<lparr>name = ''a.pdf'', size_bytes = 100\<rparr>] \<noteq> [] \<and>
   validFiles (validateFiles [\<lparr>name = ''a.pdf'', size_bytes = 100\<rparr>]) = [\<lparr>name = ''a.pdf'', size_bytes = 100\<rparr>] \<and>
   message (handleDrop [\<lparr>name = ''a.pdf'', size_bytes = 100\<rparr>]
      (initial_uploader\<lparr>message := \<lparr>msg_text = ''Invalid files: b.exe - Invalid file type'', msg_type = ''error''\<rparr>\<rparr>))
     = \<lparr>msg_text = ''Invalid files: b.exe - Invalid file type'', msg_type = ''error''\<rparr> \<and>
   message (handleFilesChange [\<lparr>name = ''a.pdf'', size_bytes = 100\<rparr>]
      (initial_uploader\<lparr>message := \<lparr>msg_text = ''Invalid files: b.exe - Invalid file type'', msg_type = ''error''\<rparr>\<rparr>))
     = \<lparr>msg_text = '''', msg_type = ''''\<rparr>"
proof -
  let ?b = "[\<lparr>name = ''a.pdf'', size_bytes = 100\<rparr>]"
  let ?s = "initial_uploader\<lparr>message := \<lparr>msg_text = ''Invalid files: b.exe - Invalid file type'', msg_type = ''error''\<rparr>\<rparr>"
  have h1: "?b \<noteq> []" by simp
  have h2: "validFiles (validateFiles ?b) = ?b" by (simp add: validator_eval)
  from handleDrop_keeps_message[OF h1 h2, of ?s] h1 h2
  show ?thesis by simp
qed

lemma no_files_no_change: "handleDrop [] s = s \<and> handleFilesChange [] s = s"
  by (simp add: handleDrop_def handleFilesChange_def)

text \<open>
  C4. With an empty selection \<open>handleSubmit\<close> returns at once: the only change is the
  message, an error reading "Please select files to upload" (the spec writes it in lower
  case). No request is issued, no timer is started, and the selection, the uploading flag
  and the percentage are as before.
\<close>

theorem handleSubmit_empty_selection:
  assumes "files s = []"
  shows "handleSubmit resetMode s =
           (s\<lparr>message := \<lparr>msg_text = ''Please select files to upload'', msg_type = ''error''\<rparr>\<rparr>,
            None)
       \<and> requests (fst (handleSubmit resetMode s)) = requests s
       \<and> intervals (fst (handleSubmit resetMode s)) = intervals s
       \<and> files (fst (handleSubmit resetMode s)) = files s
       \<and> isUploading (fst (handleSubmit resetMode s)) = isUploading s
       \<and> uploadProgress (fst (handleSubmit resetMode s)) = uploadProgress s
       \<and> msg_type (message (fst (handleSubmit resetMode s))) = ''error''
       \<and> toLowerCase (msg_text (message (fst (handleSubmit resetMode s))))
           = ''please select files to upload''"
proof -
  have low: "toLowerCase ''Please select files to upload'' = ''please select files to upload''"
    by (simp add: validator_eval)
  from assms have "handleSubmit resetMode s =
           (s\<lparr>message := \<lparr>msg_text = ''Please select files to upload'', msg_type = ''error''\<rparr>\<rparr>,
            None)"
    by (simp add: handleSubmit_def)
  then show ?thesis by (simp add: low)
qed

theorem handleSubmit_empty_selection_witness:
  "files initial_uploader = [] \<and>
   handleSubmit False initial_uploader =
     (initial_uploader\<lparr>message := \<lparr>msg_text = ''Please select files to upload'', msg_type = ''error''\<rparr>\<rparr>,
      None) \<and>
   requests (fst (handleSubmit False initial_uploader)) = []"
proof -
  have h: "files initial_uploader = []" by (simp add: initial_uploader_def)
  have r: "requests initial_uploader = []" by (simp add: initial_uploader_def)
  from handleSubmit_empty_selection[OF h, of False] h r show ?thesis by simp
qed

text \<open>
  C5, as the code has it. When the request fails, the percentage is 0 at once, the error
  message is set and the selection is untouched. The text is the error's \<open>detail\<close> when that
  is there and not the empty string; else its \<open>message\<close> when that is there and not the
  empty string; else the fixed text. The operator \<open>||\<close> skips an empty string just as it
  skips a missing field.
\<close>

theorem handleSubmit_rejected_text:
  "uploadProgress (handleSubmit_rejected e s) = 0
   \<and> files (handleSubmit_rejected e s) = files s
   \<and> isUploading (handleSubmit_rejected e s) = False
   \<and> msg_type (message (handleSubmit_rejected e s)) = ''error''
   \<and> msg_text (message (handleSubmit_rejected e s)) =
       (let fallback = ''Error uploading files. Please try a smaller file.'';
            from_message = (case response_data_field data_msg e of
                              None \<Rightarrow> fallback
                            | Some m \<Rightarrow> if m \<noteq> [] then m else fallback)
        in case response_data_field detail e of
             None \<Rightarrow> from_message
           | Some d \<Rightarrow> if d \<noteq> [] then d else from_message)"
  by (simp add: handleSubmit_rejected_def errorText_def js_or_def js_or_literal_def truthy_def
      Let_def split: option.splits)

text \<open>The backend body \<open>{detail: "disk full"}\<close> is displayed as "disk full".\<close>

theorem handleSubmit_rejected_text_witness:
  "msg_text (message (handleSubmit_rejected
      \<lparr>response = Some \<lparr>data = Some \<lparr>detail = Some ''disk full'', data_msg = None\<rparr>\<rparr>\<rparr>
      initial_uploader)) = ''disk full''"
  using handleSubmit_rejected_text[of
      "\<lparr>response = Some \<lparr>data = Some \<lparr>detail = Some ''disk full'', data_msg = None\<rparr>\<rparr>\<rparr>"
      initial_uploader]
  by (simp add: response_data_field_def)

text \<open>
  C5 as the spec states it fails where the \<open>detail\<close> field is there and empty: with the body
  \<open>{detail: "", message: "quota exceeded"}\<close> the detail is present, yet the text displayed
  is the message field, not the detail.
\<close>

theorem handleSubmit_rejected_empty_detail_counterexample:
  "response_data_field detail
      \<lparr>response = Some \<lparr>data = Some \<lparr>detail = Some '''', data_msg = Some ''quota exceeded''\<rparr>\<rparr>\<rparr>
     = Some '''' \<and>
   msg_text (message (handleSubmit_rejected
      \<lparr>response = Some \<lparr>data = Some \<lparr>detail = Some '''', data_msg = Some ''quota exceeded''\<rparr>\<rparr>\<rparr>
      initial_uploader)) = ''quota exceeded'' \<and>
   msg_text (message (handleSubmit_rejected
      \<lparr>response = Some \<lparr>data = Some \<lparr>detail = Some '''', data_msg = Some ''quota exceeded''\<rparr>\<rparr>\<rparr>
      initial_uploader)) \<noteq> ''''"
  by (simp add: handleSubmit_rejected_def errorText_def js_or_def js_or_literal_def truthy_def
      response_data_field_def)

text \<open>
  C6. When the request resolves, the progress timer of the call is cleared, so that its
  callback changes nothing any more; the percentage is 100; the message is the backend's
  \<open>message\<close> as it came, of type success; the selection is empty; and a timeout of 2000 ms
  is pending whose callback puts the percentage back to 0.
\<close>

theorem handleSubmit_resolved_success:
  "progressInterval \<notin> set (intervals (handleSubmit_resolved progressInterval r s))
   \<and> progressTick progressInterval (handleSubmit_resolved progressInterval r s)
       = handleSubmit_resolved progressInterval r s
   \<and> uploadProgress (handleSubmit_resolved progressInterval r s) = 100
   \<and> message (handleSubmit_resolved progressInterval r s)
       = \<lparr>msg_text = data_message r, msg_type = ''success''\<rparr>
   \<and> files (handleSubmit_resolved progressInterval r s) = []
   \<and> isUploading (handleSubmit_resolved progressInterval r s) = False
   \<and> timeouts (handleSubmit_resolved progressInterval r s) = timeouts s @ [2000]
   \<and> uploadProgress (progressReset (handleSubmit_resolved progressInterval r s)) = 0"
proof -
  let ?s' = "handleSubmit_resolved progressInterval r s"
  have cleared: "progressInterval \<notin> set (intervals ?s')"
    by (simp add: handleSubmit_resolved_def)
  then have tick: "progressTick progressInterval ?s' = ?s'"
    by (simp add: progressTick_def)
  have pending: "timeouts ?s' = timeouts s @ [2000]"
    by (simp add: handleSubmit_resolved_def)
  then have reset: "uploadProgress (progressReset ?s') = 0"
    by (cases "timeouts s") (simp_all add: progressReset_def)
  have rest: "uploadProgress ?s' = 100"
    "message ?s' = \<lparr>msg_text = data_message r, msg_type = ''success''\<rparr>"
    "files ?s' = []" "isUploading ?s' = False"
    by (simp_all add: handleSubmit_resolved_def)
  from cleared tick rest pending reset show ?thesis by (intro conjI)
qed

text \<open>
  A whole submission from a selection of one file: the request goes to \<open>/admin/upload\<close>,
  the timer ticks twice, and the answer \<open>{message: "1 file indexed"}\<close> arrives.
\<close>

theorem handleSubmit_resolved_success_witness:
  "handleSubmit False (handleFilesChange [\<lparr>name = ''a.pdf'', size_bytes = 100\<rparr>] initial_uploader)
     = (initial_uploader\<lparr>files := [\<lparr>name = ''a.pdf'', size_bytes = 100\<rparr>], isUploading := True,
          intervals := [0], nextTimer := 1,
          requests := [(''/admin/upload'', [\<lparr>name = ''a.pdf'', size_bytes = 100\<rparr>])]\<rparr>, Some 0) \<and>
   uploadProgress (progressTick 0 (progressTick 0
       (fst (handleSubmit False
          (handleFilesChange [\<lparr>name = ''a.pdf'', size_bytes = 100\<rparr>] initial_uploader))))) = 10 \<and>
   uploadProgress (handleSubmit_resolved 0 \<lparr>data_message = ''1 file indexed''\<rparr>
     (progressTick 0 (progressTick 0
       (fst (handleSubmit False
          (handleFilesChange [\<lparr>name = ''a.pdf'', size_bytes = 100\<rparr>] initial_uploader)))))) = 100 \<and>
   message (handleSubmit_resolved 0 \<lparr>data_message = ''1 file indexed''\<rparr>
     (progressTick 0 (progressTick 0
       (fst (handleSubmit False
          (handleFilesChange [\<lparr>name = ''a.pdf'', size_bytes = 100\<rparr>] initial_uploader))))))
     = \<lparr>msg_text = ''1 file indexed'', msg_type = ''success''\<rparr> \<and>
   files (handleSubmit_resolved 0 \<lparr>data_message = ''1 file indexed''\<rparr>
     (progressTick 0 (progressTick 0
       (fst (handleSubmit False
          (handleFilesChange [\<lparr>name = ''a.pdf'', size_bytes = 100\<rparr>] initial_uploader)))))) = [] \<and>
   timeouts (handleSubmit_resolved 0 \<lparr>data_message = ''1 file indexed''\<rparr>
     (progressTick 0 (progressTick 0
       (fst (handleSubmit False
          (handleFilesChange [\<lparr>name = ''a.pdf'', size_bytes = 100\<rparr>] initial_uploader)))))) = [2000]"
proof -
  let ?a = "\<lparr>name = ''a.pdf'', size_bytes = 100\<rparr>"
  let ?r = "\<lparr>data_message = ''1 file indexed''\<rparr>"
  have v: "validateFiles [?a] = \<lparr>validFiles = [?a], invalidFiles = []\<rparr>"
    by (simp add: validator_eval)
  have sel: "handleFilesChange [?a] initial_uploader = initial_uploader\<lparr>files := [?a]\<rparr>"
    by (simp add: handleFilesChange_def v initial_uploader_def)
  have sub: "handleSubmit False (initial_uploader\<lparr>files := [?a]\<rparr>)
     = (initial_uploader\<lparr>files := [?a], isUploading := True,
          intervals := [0], nextTimer := 1, requests := [(''/admin/upload'', [?a])]\<rparr>, Some 0)"
    by (simp add: handleSubmit_def initial_uploader_def)
  let ?s2 = "progressTick 0 (progressTick 0 (initial_uploader\<lparr>files := [?a], isUploading := True,
          intervals := [0], nextTimer := 1, requests := [(''/admin/upload'', [?a])]\<rparr>))"
  have ticks: "uploadProgress ?s2 = 10" "timeouts ?s2 = []"
    by (simp_all add: progressTick_def initial_uploader_def)
  from handleSubmit_resolved_success[of 0 ?r ?s2] ticks
  have "uploadProgress (handleSubmit_resolved 0 ?r ?s2) = 100
      \<and> message (handleSubmit_resolved 0 ?r ?s2) = \<lparr>msg_text = ''1 file indexed'', msg_type = ''success''\<rparr>
      \<and> files (handleSubmit_resolved 0 ?r ?s2) = []
      \<and> timeouts (handleSubmit_resolved 0 ?r ?s2) = [2000]"
    by simp
  with ticks show ?thesis unfolding sel sub by simp
qed

text \<open>
  C7, as the code has it. \<open>cancelUpload\<close> shows the cancelled state: not uploading,
  percentage 0, the warning "Upload cancelled". It touches neither the selection nor the
  request, the timers and the timeouts, so the request in flight is not aborted. The state
  is not final: when the request completes later, the suspended \<open>handleSubmit\<close> goes on as
  it would have without the cancellation, and replaces the warning by the backend's
  message (emptying the selection, percentage 100) or by the error text.
\<close>

theorem cancelUpload_cosmetic:
  "isUploading (cancelUpload s) = False
   \<and> uploadProgress (cancelUpload s) = 0
   \<and> message (cancelUpload s) = \<lparr>msg_text = ''Upload cancelled'', msg_type = ''warning''\<rparr>
   \<and> files (cancelUpload s) = files s
   \<and> requests (cancelUpload s) = requests s
   \<and> intervals (cancelUpload s) = intervals s
   \<and> timeouts (cancelUpload s) = timeouts s
   \<and> message (handleSubmit_resolved progressInterval r (cancelUpload s))
       = \<lparr>msg_text = data_message r, msg_type = ''success''\<rparr>
   \<and> files (handleSubmit_resolved progressInterval r (cancelUpload s)) = []
   \<and> uploadProgress (handleSubmit_resolved progressInterval r (cancelUpload s)) = 100
   \<and> message (handleSubmit_rejected e (cancelUpload s))
       = \<lparr>msg_text = errorText e, msg_type = ''error''\<rparr>"
  by (simp add: cancelUpload_def handleSubmit_resolved_def handleSubmit_rejected_def)

text \<open>
  C7 as the spec states it fails: one file is selected and submitted (the suspended call
  holds timer 0), the upload is cancelled, and then the request resolves with
  \<open>{message: "1 file indexed"}\<close>. The warning and the selection shown after the
  cancellation are both replaced.
\<close>

theorem cancelUpload_not_terminal_counterexample:
  "snd (handleSubmit False (handleFilesChange [\<lparr>name = ''a.pdf'', size_bytes = 100\<rparr>] initial_uploader))
     = Some 0 \<and>
   message (cancelUpload (fst (handleSubmit False
      (handleFilesChange [\<lparr>name = ''a.pdf'', size_bytes = 100\<rparr>] initial_uploader))))
     = \<lparr>msg_text = ''Upload cancelled'', msg_type = ''warning''\<rparr> \<and>
   files (cancelUpload (fst (handleSubmit False
      (handleFilesChange [\<lparr>name = ''a.pdf'', size_bytes = 100\<rparr>] initial_uploader))))
     = [\<lparr>name = ''a.pdf'', size_bytes = 100\<rparr>] \<and>
   message (handleSubmit_resolved 0 \<lparr>data_message = ''1 file indexed''\<rparr>
      (cancelUpload (fst (handleSubmit False
        (handleFilesChange [\<lparr>name = ''a.pdf'', size_bytes = 100\<rparr>] initial_uploader)))))
     = \<lparr>msg_text = ''1 file indexed'', msg_type = ''success''\<rparr> \<and>
   files (handleSubmit_resolved 0 \<lparr>data_message = ''1 file indexed''\<rparr>
      (cancelUpload (fst (handleSubmit False
        (handleFilesChange [\<lparr>name = ''a.pdf'', size_bytes = 100\<rparr>] initial_uploader)))))
     = [] \<and>
   message (handleSubmit_resolved 0 \<lparr>data_message = ''1 file indexed''\<rparr>
      (cancelUpload (fst (handleSubmit False
        (handleFilesChange [\<lparr>name = ''a.pdf'', size_bytes = 100\<rparr>] initial_uploader)))))
     \<noteq> message (cancelUpload (fst (handleSubmit False
      (handleFilesChange [\<lparr>name = ''a.pdf'', size_bytes = 100\<rparr>] initial_uploader))))"
proof -
  let ?a = "\<lparr>name = ''a.pdf'', size_bytes = 100\<rparr>"
  have v: "validateFiles [?a] = \<lparr>validFiles = [?a], invalidFiles = []\<rparr>"
    by (simp add: validator_eval)
  have sel: "handleFilesChange [?a] initial_uploader = initial_uploader\<lparr>files := [?a]\<rparr>"
    by (simp add: handleFilesChange_def v initial_uploader_def)
  show ?thesis
    unfolding sel
    by (simp add: handleSubmit_def initial_uploader_def cancelUpload_def handleSubmit_resolved_def)
qed

section \<open>Properties of the chat component\<close>

text \<open>The white space of \<open>trim\<close>, as a set of code units.\<close>

lemma isWhiteSpace_iff:
  "isWhiteSpace c \<longleftrightarrow>
   c \<in> {0x0009..0x000D} \<union> {0x0020, 0x00A0, 0x1680} \<union> {0x2000..0x200A}
       \<union> {0x2028, 0x2029, 0x202F, 0x205F, 0x3000, 0xFEFF}"
  unfolding isWhiteSpace_def by auto

lemma trim_empty_iff: "trim t = [] \<longleftrightarrow> (\<forall>c \<in> set t. isWhiteSpace c)"
proof
  assume "trim t = []"
  then have all: "\<forall>c \<in> set (dropWhile isWhiteSpace t). isWhiteSpace c"
    by (simp add: trim_def dropWhile_eq_Nil_conv)
  have "dropWhile isWhiteSpace t = []"
  proof (rule ccontr)
    assume ne: "dropWhile isWhiteSpace t \<noteq> []"
    then have "\<not> isWhiteSpace (hd (dropWhile isWhiteSpace t))"
      by (rule hd_dropWhile)
    moreover from ne have "hd (dropWhile isWhiteSpace t) \<in> set (dropWhile isWhiteSpace t)"
      by (rule hd_in_set)
    ultimately show False using all by blast
  qed
  then show "\<forall>c \<in> set t. isWhiteSpace c"
    by (simp add: dropWhile_eq_Nil_conv)
next
  assume "\<forall>c \<in> set t. isWhiteSpace c"
  then have d: "dropWhile isWhiteSpace t = []"
    by (simp add: dropWhile_eq_Nil_conv)
  show "trim t = []" unfolding trim_def d by simp
qed

lemma trim_empty_set:
  "trim t = [] \<longleftrightarrow>
   set t \<subseteq> {0x0009..0x000D} \<union> {0x0020, 0x00A0, 0x1680} \<union> {0x2000..0x200A}
             \<union> {0x2028, 0x2029, 0x202F, 0x205F, 0x3000, 0xFEFF}"
  unfolding trim_empty_iff isWhiteSpace_iff by (rule subset_eq[symmetric])

text \<open>
  C8. With an input that is empty or consists of white space only (every code unit is one
  of those that \<open>trim\<close> strips, written out in the statement), \<open>sendMessage\<close> changes
  nothing: no message is appended and no request is issued. With any other input it
  appends one user message carrying the input and issues one request carrying it; when
  that request resolves, one bot message follows, carrying the answer and the sources of
  the response in their order, or the empty list when the response has none.
\<close>

theorem sendMessage_turns:
  assumes "set (input blank) \<subseteq>
             {0x0009..0x000D} \<union> {0x0020, 0x00A0, 0x1680} \<union> {0x2000..0x200A}
               \<union> {0x2028, 0x2029, 0x202F, 0x205F, 0x3000, 0xFEFF}"
    and "\<not> set (input s) \<subseteq>
             {0x0009..0x000D} \<union> {0x0020, 0x00A0, 0x1680} \<union> {0x2000..0x200A}
               \<union> {0x2028, 0x2029, 0x202F, 0x205F, 0x3000, 0xFEFF}"
  shows "sendMessage now blank = (blank, False)
       \<and> sendMessage now s =
           (s\<lparr>messages := messages s @
                 [\<lparr>sender = ''user'', turn_text = input s, timestamp = now, sources = None\<rparr>],
              input := [], loading := True, asked := asked s @ [input s]\<rparr>, True)
       \<and> messages (sendMessage_resolved later res (fst (sendMessage now s))) =
           messages s @
             [\<lparr>sender = ''user'', turn_text = input s, timestamp = now, sources = None\<rparr>,
              \<lparr>sender = ''bot'', turn_text = answer res, timestamp = later,
               sources = Some (case data_sources res of None \<Rightarrow> [] | Some src \<Rightarrow> src)\<rparr>]
       \<and> asked (sendMessage_resolved later res (fst (sendMessage now s))) = asked s @ [input s]"
proof -
  from assms(1) have b: "trim (input blank) = []" by (simp only: trim_empty_set)
  from assms(2) have n: "trim (input s) \<noteq> []" by (simp only: trim_empty_set not_False_eq_True)
  from b have 1: "sendMessage now blank = (blank, False)"
    by (simp add: sendMessage_def)
  from n have 2: "sendMessage now s =
           (s\<lparr>messages := messages s @
                 [\<lparr>sender = ''user'', turn_text = input s, timestamp = now, sources = None\<rparr>],
              input := [], loading := True, asked := asked s @ [input s]\<rparr>, True)"
    by (simp add: sendMessage_def Let_def)
  show ?thesis unfolding 1 2
    by (simp add: sendMessage_resolved_def Let_def)
qed

text \<open>
  The spec's examples: \<open>send("   ")\<close>, and \<open>send("find suppliers")\<close> answered with the
  sources doc1 and doc2.
\<close>

theorem sendMessage_turns_witness:
  "set (input \<lparr>messages = [], input = utf16 ''   '', loading = False, asked = []\<rparr>) \<subseteq>
      {0x0009..0x000D} \<union> {0x0020, 0x00A0, 0x1680} \<union> {0x2000..0x200A}
        \<union> {0x2028, 0x2029, 0x202F, 0x205F, 0x3000, 0xFEFF} \<and>
   \<not> set (input \<lparr>messages = [], input = utf16 ''find suppliers'', loading = False, asked = []\<rparr>) \<subseteq>
      {0x0009..0x000D} \<union> {0x0020, 0x00A0, 0x1680} \<union> {0x2000..0x200A}
        \<union> {0x2028, 0x2029, 0x202F, 0x205F, 0x3000, 0xFEFF} \<and>
   sendMessage 5 \<lparr>messages = [], input = utf16 ''   '', loading = False, asked = []\<rparr>
     = (\<lparr>messages = [], input = utf16 ''   '', loading = False, asked = []\<rparr>, False) \<and>
   sendMessage_resolved 9
       \<lparr>answer = utf16 ''Try ACME'', data_sources = Some [utf16 ''doc1'', utf16 ''doc2'']\<rparr>
       (fst (sendMessage 5
          \<lparr>messages = [], input = utf16 ''find suppliers'', loading = False, asked = []\<rparr>))
     = \<lparr>messages =
          [\<lparr>sender = ''user'', turn_text = utf16 ''find suppliers'', timestamp = 5, sources = None\<rparr>,
           \<lparr>sender = ''bot'', turn_text = utf16 ''Try ACME'', timestamp = 9,
            sources = Some [utf16 ''doc1'', utf16 ''doc2'']\<rparr>],
        input = [], loading = False, asked = [utf16 ''find suppliers'']\<rparr>"
proof -
  let ?W = "{0x0009..0x000D} \<union> {0x0020, 0x00A0, 0x1680} \<union> {0x2000..0x200A}
        \<union> {0x2028, 0x2029, 0x202F, 0x205F, 0x3000, 0xFEFF :: nat}"
  let ?b = "\<lparr>messages = [], input = utf16 ''   '', loading = False, asked = []\<rparr>"
  let ?s = "\<lparr>messages = [], input = utf16 ''find suppliers'', loading = False, asked = []\<rparr>"
  let ?r = "\<lparr>answer = utf16 ''Try ACME'', data_sources = Some [utf16 ''doc1'', utf16 ''doc2'']\<rparr>"
  have h1: "set (input ?b) \<subseteq> ?W" by (simp add: utf16_def)
  have "(102::nat) \<in> set (input ?s)" by (simp add: utf16_def)
  moreover have "(102::nat) \<notin> ?W" by simp
  ultimately have h2: "\<not> set (input ?s) \<subseteq> ?W" by blast
  note t = sendMessage_turns[OF h1 h2, of 5 9 ?r]
  from t have 1: "sendMessage 5 ?b = (?b, False)" by (rule conjunct1)
  from t have 2: "sendMessage 5 ?s =
      (\<lparr>messages = [\<lparr>sender = ''user'', turn_text = utf16 ''find suppliers'', timestamp = 5,
                      sources = None\<rparr>],
        input = [], loading = True, asked = [utf16 ''find suppliers'']\<rparr>, True)"
    by simp
  have 3: "sendMessage_resolved 9 ?r (fst (sendMessage 5 ?s))
     = \<lparr>messages =
          [\<lparr>sender = ''user'', turn_text = utf16 ''find suppliers'', timestamp = 5, sources = None\<rparr>,
           \<lparr>sender = ''bot'', turn_text = utf16 ''Try ACME'', timestamp = 9,
            sources = Some [utf16 ''doc1'', utf16 ''doc2'']\<rparr>],
        input = [], loading = False, asked = [utf16 ''find suppliers'']\<rparr>"
    unfolding 2 by (simp add: sendMessage_resolved_def)
  from h1 h2 1 3 show ?thesis by (intro conjI)
qed

text \<open>
  White space beyond ASCII is stripped as well: an input of a no-break space (U+00A0), an
  em space (U+2003) and an ideographic space (U+3000) sends nothing, while a zero width
  space (U+200B), which \<open>trim\<close> keeps, is sent.
\<close>

lemma sendMessage_unicode_space:
  "sendMessage now \<lparr>messages = [], input = [0x00A0, 0x2003, 0x3000], loading = False, asked = []\<rparr>
     = (\<lparr>messages = [], input = [0x00A0, 0x2003, 0x3000], loading = False, asked = []\<rparr>, False)
   \<and> snd (sendMessage now \<lparr>messages = [], input = [0x200B], loading = False, asked = []\<rparr>)"
  by (simp add: sendMessage_def trim_def isWhiteSpace_def)

end
